theory Spec2Isabelle
  imports Complex_Main
begin

section \<open>Conventions of the embedding\<close>

text \<open>
  The program is \<^verbatim>\<open>src/main.py\<close>, a PySide6 application. Python's unbounded integers
  are \<^typ>\<open>int\<close>. Python's \<^verbatim>\<open>str\<close> is \<^typ>\<open>string\<close>; the model covers the 8-bit
  characters of \<^typ>\<open>char\<close>, and the only characters it classifies are the ASCII
  digits \<^verbatim>\<open>0\<close>..\<^verbatim>\<open>9\<close> and the ASCII letters.

  Python's \<^verbatim>\<open>float\<close> is modelled by \<^typ>\<open>real\<close> with exact arithmetic: the
  rounding of IEEE doubles is not represented. Every concrete evaluation below is
  at inputs where the double computation gives the same integer result (it is
  exact, or it stays well away from the integer boundary that \<^verbatim>\<open>int()\<close> cuts at).

  \<^verbatim>\<open>None\<close> results are \<^const>\<open>None\<close>, exceptions are constructors of result
  datatypes, and the calls into Qt, the file system and \<^verbatim>\<open>subprocess\<close> appear
  either as arguments of the modelled function (what the environment answers) or
  as entries of an effect log (what the function asks of the environment).
\<close>

section \<open>Time codec: \<^verbatim>\<open>MainWindow.format_time\<close> and \<^verbatim>\<open>MainWindow.parse_time\<close>\<close>

subsection \<open>Digits\<close>

definition is_digit :: "char \<Rightarrow> bool" where
  \<comment> \<open>the class \<^verbatim>\<open>\d\<close> on ASCII text\<close>
  "is_digit c = (48 \<le> (of_char c :: nat) \<and> (of_char c :: nat) \<le> 57)"

definition digit_value :: "char \<Rightarrow> int" where
  "digit_value c = int (of_char c) - 48"

definition digit_char :: "nat \<Rightarrow> char" where
  "digit_char k = char_of (48 + k)"

definition py_int_str :: "string \<Rightarrow> int" where
  \<comment> \<open>\<^verbatim>\<open>int(text)\<close> on a string of decimal digits\<close>
  "py_int_str ds = foldl (\<lambda>acc c. 10 * acc + digit_value c) 0 ds"

fun str_nat :: "nat \<Rightarrow> string" where
  \<comment> \<open>the decimal digits of a natural number, most significant first\<close>
  "str_nat n = (if n < 10 then [digit_char n] else str_nat (n div 10) @ [digit_char (n mod 10)])"

declare str_nat.simps [simp del]

definition format_0d :: "nat \<Rightarrow> int \<Rightarrow> string" where
  \<comment> \<open>the format specification \<^verbatim>\<open>0Wd\<close>: zero padding to a minimum width \<open>W\<close>,
      the sign counted in the width and written before the zeros\<close>
  "format_0d w n =
     (if n < 0
      then (let ds = str_nat (nat (- n))
            in CHR ''-'' # replicate (w - 1 - length ds) (CHR ''0'') @ ds)
      else (let ds = str_nat (nat n)
            in replicate (w - length ds) (CHR ''0'') @ ds))"

subsection \<open>\<^verbatim>\<open>format_time\<close>\<close>

text \<open>
  \<^verbatim>\<open>
  def format_time(self, ms):
      if ms < 0: ms = 0
      s, ms = divmod(ms, 1000)
      m, s = divmod(s, 60)
      return f"{int(m):02d}:{int(s):02d}.{int(ms):03d}"
  \<close>
  Python's \<^verbatim>\<open>divmod\<close> with a positive divisor is floor division, as \<open>div\<close> and
  \<open>mod\<close> on \<^typ>\<open>int\<close> are.
\<close>

definition format_time :: "int \<Rightarrow> string" where
  "format_time ms0 =
     (let ms1 = (if ms0 < 0 then 0 else ms0);
          s1 = ms1 div 1000; ms = ms1 mod 1000;
          m = s1 div 60; s = s1 mod 60
      in format_0d 2 m @ '':'' @ format_0d 2 s @ ''.'' @ format_0d 3 ms)"

subsection \<open>\<^verbatim>\<open>parse_time\<close>\<close>

text \<open>
  \<^verbatim>\<open>
  def parse_time(self, time_str):
      match = re.match(r'(\d{1,2}):(\d{2})\.(\d{3})', time_str)
      if match:
          m, s, ms = map(int, match.groups())
          return (m * 60 + s) * 1000 + ms
      return None
  \<close>
  \<^verbatim>\<open>re.match\<close> anchors the pattern at the start of the text only.
  \<open>match_tail\<close> is the part of the pattern after the first group,
  \<^verbatim>\<open>:(\d{2})\.(\d{3})\<close>, tried at the start of the remaining text; what follows
  the seven matched characters is not inspected.
\<close>

fun match_tail :: "string \<Rightarrow> (string \<times> string) option" where
  "match_tail (c0 # s1 # s2 # c1 # x1 # x2 # x3 # rest) =
     (if c0 = CHR '':'' \<and> is_digit s1 \<and> is_digit s2 \<and> c1 = CHR ''.''
         \<and> is_digit x1 \<and> is_digit x2 \<and> is_digit x3
      then Some ([s1, s2], [x1, x2, x3]) else None)"
| "match_tail _ = None"

definition with_minutes :: "string \<Rightarrow> string \<Rightarrow> (string \<times> string \<times> string) option" where
  \<comment> \<open>the first group is fixed to \<open>m\<close>; the rest of the pattern is tried on \<open>txt\<close>\<close>
  "with_minutes m txt = (case match_tail txt of None \<Rightarrow> None | Some (s, ms) \<Rightarrow> Some (m, s, ms))"

definition re_match_time :: "string \<Rightarrow> (string \<times> string \<times> string) option" where
  \<comment> \<open>the greedy \<^verbatim>\<open>\d{1,2}\<close> takes two digits first and backtracks to one\<close>
  "re_match_time txt =
     (case txt of
        d1 # d2 # rest \<Rightarrow>
          (if is_digit d1 \<and> is_digit d2
           then (case with_minutes [d1, d2] rest of
                   Some g \<Rightarrow> Some g
                 | None \<Rightarrow> with_minutes [d1] (d2 # rest))
           else if is_digit d1 then with_minutes [d1] (d2 # rest)
           else None)
      | _ \<Rightarrow> None)"

definition parse_time :: "string \<Rightarrow> int option" where
  "parse_time time_str =
     (case re_match_time time_str of
        Some (m, s, ms) \<Rightarrow> Some ((py_int_str m * 60 + py_int_str s) * 1000 + py_int_str ms)
      | None \<Rightarrow> None)"

subsection \<open>The pattern as the specification words it\<close>

definition all_digits :: "nat \<Rightarrow> string \<Rightarrow> bool" where
  "all_digits n ds = (length ds = n \<and> list_all is_digit ds)"

definition time_text :: "string \<Rightarrow> string \<Rightarrow> string \<Rightarrow> string" where
  "time_text m s ms = m @ '':'' @ s @ ''.'' @ ms"

definition time_groups :: "string \<Rightarrow> string \<Rightarrow> string \<Rightarrow> bool" where
  \<comment> \<open>the three groups of \<^verbatim>\<open>\d{1,2}:\d{2}\.\d{3}\<close>\<close>
  "time_groups m s ms = ((all_digits 1 m \<or> all_digits 2 m) \<and> all_digits 2 s \<and> all_digits 3 ms)"

definition time_value :: "string \<Rightarrow> string \<Rightarrow> string \<Rightarrow> int" where
  "time_value m s ms = (py_int_str m * 60 + py_int_str s) * 1000 + py_int_str ms"

definition fullmatch_time :: "string \<Rightarrow> bool" where
  \<comment> \<open>the text is, exactly and entirely, an instance of the pattern\<close>
  "fullmatch_time txt = (\<exists>m s ms. time_groups m s ms \<and> txt = time_text m s ms)"

section \<open>The trim slider: \<^verbatim>\<open>ProTrimSlider\<close>\<close>

subsection \<open>State\<close>

text \<open>
  The attribute \<^verbatim>\<open>_dragging\<close> is \<^verbatim>\<open>None\<close>, \<^verbatim>\<open>'position'\<close>, \<^verbatim>\<open>'start'\<close> or
  \<^verbatim>\<open>'end'\<close>. \<open>width\<close> is what \<^verbatim>\<open>self.width()\<close> returns, the widget's width in
  pixels, which the layout decides. The constructor sets \<^verbatim>\<open>handle_width = 16\<close> and
  \<^verbatim>\<open>snap_threshold_px = 10\<close>, the range \<open>0..100\<close>, the markers \<open>0\<close> and \<open>100\<close>.
\<close>

datatype drag = DragPosition | DragStart | DragEnd

record slider =
  width :: int
  handle_width :: int
  snap_threshold_px :: int
  min_val :: int
  max_val :: int
  position :: int
  start_marker :: int
  end_marker :: int
  dragging :: "drag option"

definition new_slider :: "int \<Rightarrow> slider" where
  \<comment> \<open>\<^verbatim>\<open>ProTrimSlider.__init__\<close>, laid out with the given width\<close>
  "new_slider wd =
     \<lparr>width = wd, handle_width = 16, snap_threshold_px = 10, min_val = 0, max_val = 100,
      position = 0, start_marker = 0, end_marker = 100, dragging = None\<rparr>"

subsection \<open>Pixel mapping\<close>

definition py_int :: "real \<Rightarrow> int" where
  \<comment> \<open>\<^verbatim>\<open>int(x)\<close> on a float: truncation towards zero\<close>
  "py_int x = (if 0 \<le> x then \<lfloor>x\<rfloor> else \<lceil>x\<rceil>)"

text \<open>
  \<^verbatim>\<open>
  def _value_to_pos(self, value):
      track_width = self.width() - self.handle_width
      clamped_value = max(self._min_val, min(value, self._max_val))
      if (self._max_val - self._min_val) == 0: return self.handle_width // 2
      return int((clamped_value - self._min_val) / (self._max_val - self._min_val) * track_width) + self.handle_width // 2

  def _pos_to_value(self, pos):
      track_width = self.width() - self.handle_width
      if track_width <= 0: return self._min_val
      val = self._min_val + (pos - self.handle_width // 2) / track_width * (self._max_val - self._min_val)
      return max(self._min_val, min(self._max_val, int(val)))
  \<close>
  \<^verbatim>\<open>/\<close> is true division (a float), \<^verbatim>\<open>//\<close> floor division. The position given to
  \<^verbatim>\<open>_pos_to_value\<close> is the float \<^verbatim>\<open>event.position().x()\<close> in the mouse handlers.
\<close>

definition value_to_pos :: "slider \<Rightarrow> int \<Rightarrow> int" where
  "value_to_pos w v =
     (let track_width = width w - handle_width w;
          clamped_value = max (min_val w) (min v (max_val w))
      in if max_val w - min_val w = 0 then handle_width w div 2
         else py_int (real_of_int (clamped_value - min_val w) / real_of_int (max_val w - min_val w)
                        * real_of_int track_width)
              + handle_width w div 2)"

definition pos_to_value :: "slider \<Rightarrow> real \<Rightarrow> int" where
  "pos_to_value w pos =
     (let track_width = width w - handle_width w
      in if track_width \<le> 0 then min_val w
         else (let val = real_of_int (min_val w)
                           + (pos - real_of_int (handle_width w div 2)) / real_of_int track_width
                             * real_of_int (max_val w - min_val w)
               in max (min_val w) (min (max_val w) (py_int val))))"

subsection \<open>Setters\<close>

definition setRange :: "int \<Rightarrow> int \<Rightarrow> slider \<Rightarrow> slider" where
  "setRange lo hi w = w\<lparr>min_val := lo, max_val := hi\<rparr>"

definition setPosition :: "int \<Rightarrow> slider \<Rightarrow> slider" where
  "setPosition v w = (if position w \<noteq> v then w\<lparr>position := v\<rparr> else w)"

definition setStartMarker :: "int \<Rightarrow> slider \<Rightarrow> slider" where
  "setStartMarker v w = (if start_marker w \<noteq> v then w\<lparr>start_marker := v\<rparr> else w)"

definition setEndMarker :: "int \<Rightarrow> slider \<Rightarrow> slider" where
  "setEndMarker v w = (if end_marker w \<noteq> v then w\<lparr>end_marker := v\<rparr> else w)"

subsection \<open>Mouse handlers\<close>

text \<open>
  The handlers emit Qt signals. A handler of the model returns the signals it emits, in
  order; the window (below) runs the slots connected to them.
  \<^verbatim>\<open>
  def mouseMoveEvent(self, event):
      if not self._dragging: return
      is_shift_pressed = bool(QGuiApplication.keyboardModifiers() & Qt.ShiftModifier)
      fine_tune_factor = 0.25 if is_shift_pressed else 1.0
      current_val = self._pos_to_value(event.position().x())
      if self._dragging == 'position':
          self.positionChanged.emit(current_val)
      elif self._dragging == 'start':
          prev_val = self._start_marker
          new_val = prev_val + (current_val - prev_val) * fine_tune_factor
          if new_val < self._end_marker: self.startMarkerChanged.emit(int(new_val))
      elif self._dragging == 'end':
          prev_val = self._end_marker
          new_val = prev_val + (current_val - prev_val) * fine_tune_factor
          if new_val > self._start_marker: self.endMarkerChanged.emit(int(new_val))
      self.update()
  \<close>
  The arguments are the pointer's x coordinate and whether Shift is held. The products
  with \<open>0.25\<close> and \<open>1.0\<close> and the sums are exact in doubles for values below \<open>2\<^sup>5\<^sup>0\<close>.
\<close>

datatype signal =
    positionChanged int
  | startMarkerChanged int
  | endMarkerChanged int
  | sliderPressed
  | sliderReleased

definition fine_tune_factor :: "bool \<Rightarrow> real" where
  "fine_tune_factor is_shift_pressed = (if is_shift_pressed then 0.25 else 1.0)"

definition mouseMoveEvent :: "slider \<Rightarrow> real \<Rightarrow> bool \<Rightarrow> signal list" where
  "mouseMoveEvent w x is_shift_pressed =
     (case dragging w of
        None \<Rightarrow> []
      | Some d \<Rightarrow>
          (let current_val = pos_to_value w x
           in case d of
                DragPosition \<Rightarrow> [positionChanged current_val]
              | DragStart \<Rightarrow>
                  (let prev_val = start_marker w;
                       new_val = real_of_int prev_val
                                 + real_of_int (current_val - prev_val) * fine_tune_factor is_shift_pressed
                   in if new_val < real_of_int (end_marker w)
                      then [startMarkerChanged (py_int new_val)] else [])
              | DragEnd \<Rightarrow>
                  (let prev_val = end_marker w;
                       new_val = real_of_int prev_val
                                 + real_of_int (current_val - prev_val) * fine_tune_factor is_shift_pressed
                   in if new_val > real_of_int (start_marker w)
                      then [endMarkerChanged (py_int new_val)] else [])))"

text \<open>
  \<^verbatim>\<open>
  def mousePressEvent(self, event):
      pos_x = self._value_to_pos(self._position)
      start_x = self._value_to_pos(self._start_marker)
      end_x = self._value_to_pos(self._end_marker)
      ex = event.position().x()
      if abs(ex - start_x) < self.handle_width // 2: self._dragging = 'start'
      elif abs(ex - end_x) < self.handle_width // 2: self._dragging = 'end'
      elif abs(ex - pos_x) < self.handle_width // 2: self._dragging = 'position'
      else: self._dragging = 'position'
      self.sliderPressed.emit()
      self.mouseMoveEvent(event)
  \<close>
  \<open>begin_drag\<close> is the part up to the assignment of \<^verbatim>\<open>_dragging\<close>; the window runs the
  slot of \<^verbatim>\<open>sliderPressed\<close> and then the move handler.
\<close>

definition pick_handle :: "slider \<Rightarrow> real \<Rightarrow> drag" where
  "pick_handle w ex =
     (let pos_x = value_to_pos w (position w);
          start_x = value_to_pos w (start_marker w);
          end_x = value_to_pos w (end_marker w)
      in if \<bar>ex - real_of_int start_x\<bar> < real_of_int (handle_width w div 2) then DragStart
         else if \<bar>ex - real_of_int end_x\<bar> < real_of_int (handle_width w div 2) then DragEnd
         else if \<bar>ex - real_of_int pos_x\<bar> < real_of_int (handle_width w div 2) then DragPosition
         else DragPosition)"

definition begin_drag :: "slider \<Rightarrow> real \<Rightarrow> slider" where
  "begin_drag w ex = w\<lparr>dragging := Some (pick_handle w ex)\<rparr>"

text \<open>
  \<^verbatim>\<open>
  def mouseReleaseEvent(self, event):
      if self._dragging == 'position':
          pos_x = self._value_to_pos(self._position)
          start_x = self._value_to_pos(self._start_marker)
          end_x = self._value_to_pos(self._end_marker)
          if abs(pos_x - start_x) < self.snap_threshold_px: self.positionChanged.emit(self._start_marker)
          elif abs(pos_x - end_x) < self.snap_threshold_px: self.positionChanged.emit(self._end_marker)
      self._dragging = None
      self.update()
      self.sliderReleased.emit()
  \<close>
\<close>

definition mouseReleaseEvent :: "slider \<Rightarrow> signal list \<times> slider" where
  "mouseReleaseEvent w =
     (let snap =
            (if dragging w = Some DragPosition
             then (let pos_x = value_to_pos w (position w);
                       start_x = value_to_pos w (start_marker w);
                       end_x = value_to_pos w (end_marker w)
                   in if \<bar>pos_x - start_x\<bar> < snap_threshold_px w then [positionChanged (start_marker w)]
                      else if \<bar>pos_x - end_x\<bar> < snap_threshold_px w then [positionChanged (end_marker w)]
                      else [])
             else [])
      in (snap @ [sliderReleased], w\<lparr>dragging := None\<rparr>))"

section \<open>Paths and text helpers of the standard library\<close>

text \<open>
  \<^verbatim>\<open>os.path\<close> and \<^verbatim>\<open>pathlib\<close> are modelled with their POSIX behaviour (separator
  \<^verbatim>\<open>/\<close>). \<open>path_suffix\<close> and \<open>path_stem\<close> follow \<^verbatim>\<open>PurePath.suffix\<close> and
  \<^verbatim>\<open>PurePath.stem\<close> on a file name: with \<open>i\<close> the index of the last dot, the suffix is
  \<^verbatim>\<open>name[i:]\<close> when \<open>0 < i < len(name) - 1\<close> and empty otherwise.
\<close>

definition basename :: "string \<Rightarrow> string" where
  "basename p = rev (takeWhile (\<lambda>c. c \<noteq> CHR ''/'') (rev p))"

definition path_join :: "string \<Rightarrow> string \<Rightarrow> string" where
  "path_join a b =
     (if b \<noteq> [] \<and> hd b = CHR ''/'' then b
      else if a = [] \<or> last a = CHR ''/'' then a @ b
      else a @ ''/'' @ b)"

definition path_suffix :: "string \<Rightarrow> string" where
  "path_suffix name =
     (let after = rev (takeWhile (\<lambda>c. c \<noteq> CHR ''.'') (rev name))
      in if CHR ''.'' \<in> set name \<and> after \<noteq> [] \<and> length after + 1 < length name
         then CHR ''.'' # after else [])"

definition path_stem :: "string \<Rightarrow> string" where
  "path_stem name = take (length name - length (path_suffix name)) name"

definition py_str_int :: "int \<Rightarrow> string" where
  \<comment> \<open>\<^verbatim>\<open>str(n)\<close> of an integer\<close>
  "py_str_int n = (if n < 0 then CHR ''-'' # str_nat (nat (- n)) else str_nat (nat n))"

definition ascii_lower :: "char \<Rightarrow> char" where
  "ascii_lower c =
     (let n = (of_char c :: nat) in if 65 \<le> n \<and> n \<le> 90 then char_of (n + 32) else c)"

definition lower :: "string \<Rightarrow> string" where
  \<comment> \<open>\<^verbatim>\<open>str.lower()\<close> on ASCII text\<close>
  "lower s = map ascii_lower s"

definition endswith :: "string \<Rightarrow> string \<Rightarrow> bool" where
  "endswith s ext = (length ext \<le> length s \<and> drop (length s - length ext) s = ext)"

definition truthy :: "string option \<Rightarrow> bool" where
  \<comment> \<open>the truth value of an optional string: neither \<^verbatim>\<open>None\<close> nor empty\<close>
  "truthy p = (case p of None \<Rightarrow> False | Some s \<Rightarrow> s \<noteq> [])"

section \<open>The main window: \<^verbatim>\<open>MainWindow\<close>\<close>

subsection \<open>State and effects\<close>

text \<open>
  An item of the cache list is a \<^verbatim>\<open>QListWidgetItem\<close>: its text, its \<^verbatim>\<open>Qt.UserRole\<close>
  data (the file path) and its icon. A job is a \<^verbatim>\<open>ThumbnailGenerator\<close> with the four
  attributes its constructor stores.

  The media player, the message boxes, the external processes and the worker threads
  are outside the program. What a function asks of them is an \<open>effect\<close>, in the order
  of the calls; what they answer is an argument of the function. In a command line,
  \<open>Seconds ms\<close> stands for the text \<^verbatim>\<open>str(ms / 1000.0)\<close> and \<open>NoArg\<close> for a
  \<^verbatim>\<open>None\<close> where a string is expected.
\<close>

datatype icon = SP_MediaPlay | SP_MediaVolume | Thumbnail string

record item =
  item_text :: string
  item_path :: string
  item_icon :: icon

record job =
  job_item :: item
  media_path :: string
  thumb_path :: string
  job_ffmpeg_path :: "string option"

datatype arg = Lit string | Seconds int | NoArg

datatype proc_result =
    Completed
  | CalledProcessError string   \<comment> \<open>non-zero exit under \<^verbatim>\<open>check=True\<close>, with the captured standard error\<close>
  | OtherError                  \<comment> \<open>any other exception of \<^verbatim>\<open>subprocess.run\<close>\<close>

datatype effect =
    MessageWarning string string
  | MessageInformation string string
  | MessageCritical string string
  | PlayerStop
  | PlayerSetSource "string option"
  | PlayerPause
  | PlayerPlay
  | PlayerSetPosition int
  | RunProcess "arg list"
  | StartWorker job
  | ThumbnailReady item icon
  | Printed
  | Uncaught

record window =
  position_slider :: slider
  start_time_ms :: int
  end_time_ms :: int
  time_edit_start :: string
  time_edit_end :: string
  current_media_path :: "string option"
  ffmpeg_path :: "string option"
  cache_dir :: string
  thumb_cache_dir :: string
  cache_list :: "item list"
  thumbnail_workers :: "job list"
  was_playing_before_drag :: bool
  lbl_media_name :: string
  lbl_big_timestamp :: string
  btn_play_enabled :: bool
  btn_trim_enabled :: bool
  loop_checked :: bool

subsection \<open>Slots of the slider's signals\<close>

text \<open>
  \<^verbatim>\<open>
  self.position_slider.positionChanged.connect(self.set_position)
  self.position_slider.startMarkerChanged.connect(self.set_start_time_from_slider)
  self.position_slider.endMarkerChanged.connect(self.set_end_time_from_slider)
  self.position_slider.sliderPressed.connect(self.on_slider_pressed)
  self.position_slider.sliderReleased.connect(self.on_slider_released)

  def set_start_time_from_slider(self, value):
      self.start_time_ms = value
      self.time_edit_start.setText(self.format_time(value))
      self.position_slider.setStartMarker(value) # Ensure UI sync

  def set_end_time_from_slider(self, value):
      self.end_time_ms = value
      self.time_edit_end.setText(self.format_time(value))
      self.position_slider.setEndMarker(value) # Ensure UI sync
  \<close>
  The connections are direct: a slot runs inside \<^verbatim>\<open>emit\<close>. \<open>playing\<close> is whether
  \<^verbatim>\<open>media_player.playbackState()\<close> is \<^verbatim>\<open>PlayingState\<close> when \<^verbatim>\<open>on_slider_pressed\<close> asks.
\<close>

definition set_start_time_from_slider :: "int \<Rightarrow> window \<Rightarrow> window" where
  "set_start_time_from_slider v w =
     w\<lparr>start_time_ms := v, time_edit_start := format_time v,
       position_slider := setStartMarker v (position_slider w)\<rparr>"

definition set_end_time_from_slider :: "int \<Rightarrow> window \<Rightarrow> window" where
  "set_end_time_from_slider v w =
     w\<lparr>end_time_ms := v, time_edit_end := format_time v,
       position_slider := setEndMarker v (position_slider w)\<rparr>"

definition on_slider_pressed :: "bool \<Rightarrow> window \<Rightarrow> effect list \<times> window" where
  "on_slider_pressed playing w =
     (if playing then ([PlayerPause], w\<lparr>was_playing_before_drag := True\<rparr>)
      else ([], w\<lparr>was_playing_before_drag := False\<rparr>))"

definition on_slider_released :: "window \<Rightarrow> effect list \<times> window" where
  "on_slider_released w =
     ((if was_playing_before_drag w then [PlayerPlay] else []), w\<lparr>was_playing_before_drag := False\<rparr>)"

fun slot :: "bool \<Rightarrow> signal \<Rightarrow> window \<Rightarrow> effect list \<times> window" where
  "slot playing (positionChanged v) w = ([PlayerSetPosition v], w)"
| "slot playing (startMarkerChanged v) w = ([], set_start_time_from_slider v w)"
| "slot playing (endMarkerChanged v) w = ([], set_end_time_from_slider v w)"
| "slot playing sliderPressed w = on_slider_pressed playing w"
| "slot playing sliderReleased w = on_slider_released w"

fun deliver :: "bool \<Rightarrow> signal list \<Rightarrow> window \<Rightarrow> effect list \<times> window" where
  "deliver playing [] w = ([], w)"
| "deliver playing (sg # sgs) w =
     (let (e1, w1) = slot playing sg w; (e2, w2) = deliver playing sgs w1 in (e1 @ e2, w2))"

subsection \<open>Mouse events as the window sees them\<close>

definition mouse_move :: "real \<Rightarrow> bool \<Rightarrow> bool \<Rightarrow> window \<Rightarrow> effect list \<times> window" where
  \<comment> \<open>\<^verbatim>\<open>mouseMoveEvent\<close> at x, with Shift held or not, and the slots it triggers\<close>
  "mouse_move x is_shift_pressed playing w =
     deliver playing (mouseMoveEvent (position_slider w) x is_shift_pressed) w"

definition mouse_press :: "real \<Rightarrow> bool \<Rightarrow> bool \<Rightarrow> window \<Rightarrow> effect list \<times> window" where
  \<comment> \<open>\<^verbatim>\<open>mousePressEvent\<close>: the handle is chosen, \<^verbatim>\<open>sliderPressed\<close> is emitted, then the
      move handler runs on the same event\<close>
  "mouse_press x is_shift_pressed playing w =
     (let w1 = w\<lparr>position_slider := begin_drag (position_slider w) x\<rparr>;
          (e1, w2) = slot playing sliderPressed w1;
          (e2, w3) = mouse_move x is_shift_pressed playing w2
      in (e1 @ e2, w3))"

definition mouse_release :: "bool \<Rightarrow> window \<Rightarrow> effect list \<times> window" where
  "mouse_release playing w =
     (let (sgs, sl) = mouseReleaseEvent (position_slider w)
      in deliver playing sgs (w\<lparr>position_slider := sl\<rparr>))"

fun mouse_moves :: "(real \<times> bool) list \<Rightarrow> window \<Rightarrow> window" where
  \<comment> \<open>a sequence of move events, each with its x coordinate and Shift state\<close>
  "mouse_moves [] w = w"
| "mouse_moves ((x, is_shift_pressed) # evs) w =
     mouse_moves evs (snd (mouse_move x is_shift_pressed False w))"

subsection \<open>The cache list\<close>

text \<open>
  \<^verbatim>\<open>
  def request_thumbnail(self, item, media_path):
      base_name = os.path.basename(media_path)
      thumb_filename = f"{pathlib.Path(base_name).stem}.jpg"
      thumb_path = os.path.join(self.thumb_cache_dir, thumb_filename)
      worker = ThumbnailGenerator(item, media_path, thumb_path, self.ffmpeg_path)
      worker.thumbnailReady.connect(self.on_thumbnail_ready)
      self.thumbnail_workers.append(worker)
      worker.start()

  def add_to_cache_list(self, file_path, from_load=False):
      base_name = os.path.basename(file_path)
      if not self.cache_list.findItems(base_name, Qt.MatchFixedString):
          item = QListWidgetItem(base_name)
          item.setData(Qt.UserRole, file_path)
          file_lower = base_name.lower()
          if any(file_lower.endswith(ext) for ext in self.VIDEO_EXTENSIONS):
              item.setIcon(self.style().standardIcon(QStyle.SP_MediaPlay)) # Placeholder
              if self.ffmpeg_path: self.request_thumbnail(item, file_path)
          else:
              item.setIcon(self.style().standardIcon(QStyle.SP_MediaVolume))
          self.cache_list.addItem(item)
  \<close>
  \<^verbatim>\<open>findItems\<close> is Qt's. Its flag \<^verbatim>\<open>Qt.MatchFixedString\<close> is documented as: ``Performs
  string-based matching. String-based comparisons are case-insensitive unless the
  \<^verbatim>\<open>MatchCaseSensitive\<close> flag is also specified.'' The call gives no
  \<^verbatim>\<open>MatchCaseSensitive\<close>, so an item matches when its text equals the given text up to
  the case of letters; the model folds the ASCII letters.
\<close>

definition VIDEO_EXTENSIONS :: "string list" where
  "VIDEO_EXTENSIONS = [''.mp4'', ''.mov'', ''.avi'', ''.mkv'']"

definition findItems :: "item list \<Rightarrow> string \<Rightarrow> item list" where
  "findItems items txt = filter (\<lambda>it. lower (item_text it) = lower txt) items"

definition request_thumbnail :: "item \<Rightarrow> string \<Rightarrow> window \<Rightarrow> effect list \<times> window" where
  "request_thumbnail it mpath w =
     (let base_name = basename mpath;
          thumb_filename = path_stem base_name @ ''.jpg'';
          tpath = path_join (thumb_cache_dir w) thumb_filename;
          worker = \<lparr>job_item = it, media_path = mpath, thumb_path = tpath,
                    job_ffmpeg_path = ffmpeg_path w\<rparr>
      in ([StartWorker worker], w\<lparr>thumbnail_workers := thumbnail_workers w @ [worker]\<rparr>))"

definition add_to_cache_list :: "string \<Rightarrow> window \<Rightarrow> effect list \<times> window" where
  "add_to_cache_list file_path w =
     (let base_name = basename file_path
      in if findItems (cache_list w) base_name = []
         then (let file_lower = lower base_name
               in if list_ex (endswith file_lower) VIDEO_EXTENSIONS
                  then (let it = \<lparr>item_text = base_name, item_path = file_path,
                                   item_icon = SP_MediaPlay\<rparr>;
                            (e, w1) = (if truthy (ffmpeg_path w) then request_thumbnail it file_path w
                                       else ([], w))
                        in (e, w1\<lparr>cache_list := cache_list w1 @ [it]\<rparr>))
                  else ([], w\<lparr>cache_list := cache_list w @
                               [\<lparr>item_text = base_name, item_path = file_path,
                                 item_icon = SP_MediaVolume\<rparr>]\<rparr>))
         else ([], w))"


subsection \<open>\<^verbatim>\<open>trim_media\<close>\<close>

text \<open>
  \<^verbatim>\<open>
  def trim_media(self):
      if not self.current_media_path: return
      if self.start_time_ms >= self.end_time_ms:
          QMessageBox.warning(self, "Trim Error", "Start time must be before end time.")
          return
      self.media_player.pause()
      input_path = pathlib.Path(self.current_media_path)
      output_filename = f"{input_path.stem}_trimmed_{self.start_time_ms}_{self.end_time_ms}{input_path.suffix}"
      output_path = os.path.join(self.cache_dir, output_filename)
      command = [
          self.ffmpeg_path, '-i', str(input_path),
          '-ss', str(self.start_time_ms / 1000.0),
          '-to', str(self.end_time_ms / 1000.0),
          '-c:v', 'libx264', '-preset', 'ultrafast', '-c:a', 'aac', # Re-encode for compatibility
          '-y', output_path
      ]
      try:
          subprocess.run(command, check=True, capture_output=True, text=True, creationflags=...)
          self.add_to_cache_list(output_path)
          QMessageBox.information(self, "Trim Success", f"File successfully cached.")
      except subprocess.CalledProcessError as e:
          QMessageBox.critical(self, "FFmpeg Error", f"An error occurred during trimming.\n\nError:\n{e.stderr}")
  \<close>
  \<open>proc\<close> is what \<^verbatim>\<open>subprocess.run\<close> does with the command. The media path is a file
  path, so \<^verbatim>\<open>input_path.name\<close> is its base name and \<^verbatim>\<open>str(input_path)\<close> the path.
  An exception other than \<^verbatim>\<open>CalledProcessError\<close> is not caught here.
\<close>

definition option_arg :: "string option \<Rightarrow> arg" where
  "option_arg p = (case p of None \<Rightarrow> NoArg | Some s \<Rightarrow> Lit s)"

definition output_filename :: "string \<Rightarrow> int \<Rightarrow> int \<Rightarrow> string" where
  "output_filename input_path start_ms end_ms =
     (let name = basename input_path
      in path_stem name @ ''_trimmed_'' @ py_str_int start_ms @ ''_'' @ py_str_int end_ms
         @ path_suffix name)"

definition trim_command :: "window \<Rightarrow> string \<Rightarrow> string \<Rightarrow> arg list" where
  "trim_command w input_path output_path =
     [option_arg (ffmpeg_path w), Lit ''-i'', Lit input_path,
      Lit ''-ss'', Seconds (start_time_ms w),
      Lit ''-to'', Seconds (end_time_ms w),
      Lit ''-c:v'', Lit ''libx264'', Lit ''-preset'', Lit ''ultrafast'', Lit ''-c:a'', Lit ''aac'',
      Lit ''-y'', Lit output_path]"

definition trim_error_text :: "string \<Rightarrow> string" where
  "trim_error_text stderr =
     ''An error occurred during trimming.'' @ [CHR 0x0A, CHR 0x0A] @ ''Error:'' @ [CHR 0x0A] @ stderr"

definition trim_media :: "(arg list \<Rightarrow> proc_result) \<Rightarrow> window \<Rightarrow> effect list \<times> window" where
  "trim_media proc w =
     (if \<not> truthy (current_media_path w) then ([], w)
      else if start_time_ms w \<ge> end_time_ms w
      then ([MessageWarning ''Trim Error'' ''Start time must be before end time.''], w)
      else (let input_path = the (current_media_path w);
                output_path = path_join (cache_dir w)
                                (output_filename input_path (start_time_ms w) (end_time_ms w));
                command = trim_command w input_path output_path
            in case proc command of
                 Completed \<Rightarrow>
                   (let (e, w1) = add_to_cache_list output_path w
                    in ([PlayerPause, RunProcess command] @ e
                        @ [MessageInformation ''Trim Success'' ''File successfully cached.''], w1))
               | CalledProcessError stderr \<Rightarrow>
                   ([PlayerPause, RunProcess command,
                     MessageCritical ''FFmpeg Error'' (trim_error_text stderr)], w)
               | OtherError \<Rightarrow> ([PlayerPause, RunProcess command, Uncaught], w)))"

subsection \<open>Loading a media file\<close>

text \<open>
  \<^verbatim>\<open>
  def load_media(self, file_path):
      self.clear_player_state()
      self.loop_checkbox.setChecked(False)
      self.current_media_path = file_path
      self.media_player.setSource(QUrl.fromLocalFile(file_path))
      self.lbl_media_name.setText(os.path.basename(file_path))
      self.btn_play.setEnabled(True)
      self.btn_trim.setEnabled(self.ffmpeg_path is not None)
      self.play_media()

  def clear_player_state(self):
      self.media_player.stop()
      self.media_player.setSource(QUrl())
      self.current_media_path = None
      self.lbl_media_name.setText("No Media Loaded")
      self.lbl_big_timestamp.setText("00:00.000 / 00:00.000")
      self.btn_play.setEnabled(False)
      self.btn_trim.setEnabled(False)
      self.reset_trim_times()

  def play_media(self):
      if self.media_player.playbackState() == QMediaPlayer.PlaybackState.PlayingState: self.media_player.pause()
      else: self.media_player.play()

  def reset_trim_times(self):
      duration = self.media_player.duration()
      self.start_time_ms, self.end_time_ms = 0, duration
      self.position_slider.setStartMarker(0)
      self.position_slider.setEndMarker(duration)
      self.time_edit_start.setText(self.format_time(0))
      self.time_edit_end.setText(self.format_time(duration))

  def duration_changed(self, duration):
      duration = duration if duration > 0 else 0
      self.position_slider.setRange(0, duration)
      self.reset_trim_times()
      self.lbl_big_timestamp.setText(f"00:00.000 / {self.format_time(duration)}")
  \<close>
  The player's answers are arguments: \<open>player_duration\<close> is what
  \<^verbatim>\<open>media_player.duration()\<close> returns to \<^verbatim>\<open>reset_trim_times\<close>, and \<open>playing\<close> whether
  \<^verbatim>\<open>playbackState()\<close> is \<^verbatim>\<open>PlayingState\<close> in \<^verbatim>\<open>play_media\<close>. In \<^verbatim>\<open>load_media\<close>
  the duration is read after \<^verbatim>\<open>stop()\<close> and \<^verbatim>\<open>setSource(QUrl())\<close>. The player's own
  notifications (\<^verbatim>\<open>durationChanged\<close> among them) reach the window as later calls of
  its slots, \<^verbatim>\<open>duration_changed\<close> with the duration the signal carries.
\<close>

definition reset_trim_times :: "int \<Rightarrow> window \<Rightarrow> window" where
  "reset_trim_times player_duration w =
     w\<lparr>start_time_ms := 0, end_time_ms := player_duration,
       position_slider := setEndMarker player_duration (setStartMarker 0 (position_slider w)),
       time_edit_start := format_time 0,
       time_edit_end := format_time player_duration\<rparr>"

definition clear_player_state :: "int \<Rightarrow> window \<Rightarrow> effect list \<times> window" where
  "clear_player_state player_duration w =
     ([PlayerStop, PlayerSetSource None],
      reset_trim_times player_duration
        (w\<lparr>current_media_path := None, lbl_media_name := ''No Media Loaded'',
           lbl_big_timestamp := ''00:00.000 / 00:00.000'',
           btn_play_enabled := False, btn_trim_enabled := False\<rparr>))"

definition play_media :: "bool \<Rightarrow> effect list" where
  "play_media playing = (if playing then [PlayerPause] else [PlayerPlay])"

definition load_media :: "int \<Rightarrow> bool \<Rightarrow> string \<Rightarrow> window \<Rightarrow> effect list \<times> window" where
  "load_media player_duration playing file_path w =
     (let (e1, w1) = clear_player_state player_duration w;
          w2 = w1\<lparr>loop_checked := False, current_media_path := Some file_path,
                  lbl_media_name := basename file_path, btn_play_enabled := True,
                  btn_trim_enabled := (ffmpeg_path w1 \<noteq> None)\<rparr>
      in (e1 @ [PlayerSetSource (Some file_path)] @ play_media playing, w2))"

definition duration_changed :: "int \<Rightarrow> int \<Rightarrow> window \<Rightarrow> window" where
  \<comment> \<open>the duration the signal carries, then the player's answer to \<^verbatim>\<open>duration()\<close>\<close>
  "duration_changed signalled player_duration w =
     (let duration = (if signalled > 0 then signalled else 0);
          w1 = w\<lparr>position_slider := setRange 0 duration (position_slider w)\<rparr>;
          w2 = reset_trim_times player_duration w1
      in w2\<lparr>lbl_big_timestamp := ''00:00.000 / '' @ format_time duration\<rparr>)"

section \<open>The thumbnail worker: \<^verbatim>\<open>ThumbnailGenerator.run\<close>\<close>

text \<open>
  \<^verbatim>\<open>
  def run(self):
      try:
          if not os.path.exists(self.thumb_path):
              # Use a safer seek time for short clips and prevent hanging
              command = [
                  self.ffmpeg_path, '-nostdin', '-ss', '00:00:00.1', '-i', self.media_path,
                  '-vframes', '1', '-vf', 'scale=128:-1', self.thumb_path
              ]
              subprocess.run(command, check=True, capture_output=True, text=True, creationflags=...)
          if os.path.exists(self.thumb_path):
              self.thumbnailReady.emit(self.item, QIcon(self.thumb_path))
      except Exception as e:
          # Silently fail for audio files or errors, the placeholder icon will remain
          print(f"Could not generate thumbnail for {self.media_path}: ...")
  \<close>
  The file system is the set of the paths that exist. \<open>proc\<close> is what
  \<^verbatim>\<open>subprocess.run\<close> does with the command on a file system: its outcome and the file
  system it leaves. Within one run nothing else changes the file system between the
  two calls of \<^verbatim>\<open>os.path.exists\<close>.
\<close>

definition thumb_command :: "job \<Rightarrow> arg list" where
  "thumb_command j =
     [option_arg (job_ffmpeg_path j), Lit ''-nostdin'', Lit ''-ss'', Lit ''00:00:00.1'',
      Lit ''-i'', Lit (media_path j), Lit ''-vframes'', Lit ''1'', Lit ''-vf'',
      Lit ''scale=128:-1'', Lit (thumb_path j)]"

definition emit_if_exists :: "job \<Rightarrow> string set \<Rightarrow> effect list" where
  "emit_if_exists j fs =
     (if thumb_path j \<in> fs then [ThumbnailReady (job_item j) (Thumbnail (thumb_path j))] else [])"

definition run :: "(arg list \<Rightarrow> string set \<Rightarrow> proc_result \<times> string set) \<Rightarrow> job \<Rightarrow> string set
    \<Rightarrow> effect list \<times> string set" where
  "run proc j fs =
     (if thumb_path j \<notin> fs
      then (let command = thumb_command j; (r, fs1) = proc command fs
            in case r of
                 Completed \<Rightarrow> (RunProcess command # emit_if_exists j fs1, fs1)
               | CalledProcessError stderr \<Rightarrow> ([RunProcess command, Printed], fs1)
               | OtherError \<Rightarrow> ([RunProcess command, Printed], fs1))
      else (emit_if_exists j fs, fs))"

fun run_all :: "(arg list \<Rightarrow> string set \<Rightarrow> proc_result \<times> string set) \<Rightarrow> job list \<Rightarrow> string set
    \<Rightarrow> effect list \<times> string set" where
  \<comment> \<open>the workers of several requests, one after the other\<close>
  "run_all proc [] fs = ([], fs)"
| "run_all proc (j # js) fs =
     (let (e1, fs1) = run proc j fs; (e2, fs2) = run_all proc js fs1 in (e1 @ e2, fs2))"

section \<open>The window after start-up\<close>

text \<open>
  \<^verbatim>\<open>MainWindow.__init__\<close> with the slider laid out at the given width, the result of
  \<^verbatim>\<open>check_ffmpeg\<close>, the two cache directories and an empty cache directory on disk:
  both times are 0, no media is loaded, the trim button is disabled.
\<close>

definition new_window :: "int \<Rightarrow> string option \<Rightarrow> string \<Rightarrow> string \<Rightarrow> window" where
  "new_window wd ffmpeg cdir tdir =
     \<lparr>position_slider = new_slider wd, start_time_ms = 0, end_time_ms = 0,
      time_edit_start = ''00:00.000'', time_edit_end = ''00:00.000'',
      current_media_path = None, ffmpeg_path = ffmpeg, cache_dir = cdir, thumb_cache_dir = tdir,
      cache_list = [], thumbnail_workers = [], was_playing_before_drag = False,
      lbl_media_name = ''No Media Loaded'', lbl_big_timestamp = ''00:00.000 / 00:00.000'',
      btn_play_enabled = True, btn_trim_enabled = False, loop_checked = False\<rparr>"

definition window0 :: window where
  "window0 = new_window 116 (Some ''/usr/bin/ffmpeg'') ''/app/nexus_cache'' ''/app/nexus_cache/thumbnails''"

definition loaded_window :: "int \<Rightarrow> int \<Rightarrow> window" where
  \<comment> \<open>\<open>window0\<close> with a media file loaded and the two trim times set\<close>
  "loaded_window start_ms end_ms =
     window0\<lparr>current_media_path := Some ''/media/clip.mp4'',
              start_time_ms := start_ms, end_time_ms := end_ms\<rparr>"

definition media_window :: window where
  \<comment> \<open>\<open>window0\<close> after a file has been loaded and the player has reported its duration,
      100 ms: the slider's range is \<open>0..100\<close>, the markers are at 0 and 100\<close>
  "media_window = duration_changed 100 100 (snd (load_media 0 False ''/media/clip.mp4'' window0))"

definition close_markers_window :: window where
  \<comment> \<open>\<open>media_window\<close> with the end marker at 4: the two handles are 4 pixels apart\<close>
  "close_markers_window = set_end_time_from_slider 4 media_window"

definition drag_window :: window where
  \<comment> \<open>\<open>media_window\<close> after the end handle was pressed with Shift held (at x = 108) and
      the pointer moved to the left edge of the track (x = 8) in 13 move events\<close>
  "drag_window = mouse_moves (replicate 13 (8, True)) (snd (mouse_press 108 True False media_window))"


definition job0 :: job where
  \<comment> \<open>a thumbnail request for a cached video\<close>
  "job0 = \<lparr>job_item = \<lparr>item_text = ''a.mp4'', item_path = ''/c/a.mp4'', item_icon = SP_MediaPlay\<rparr>,
           media_path = ''/c/a.mp4'', thumb_path = ''/t/a.jpg'',
           job_ffmpeg_path = Some ''/usr/bin/ffmpeg''\<rparr>"

section \<open>Keys of the cache list\<close>


section \<open>Properties of the time codec\<close>

subsection \<open>Digits and zero padding\<close>

lemma digit_char_0: "digit_char 0 = CHR ''0''" by code_simp

lemma is_digit_digit_char: "k < 10 \<Longrightarrow> is_digit (digit_char k)"
  by (simp add: is_digit_def digit_char_def)

lemma digit_value_digit_char: "k < 10 \<Longrightarrow> digit_value (digit_char k) = int k"
  by (simp add: digit_value_def digit_char_def)

lemma colon_not_digit: "\<not> is_digit (CHR '':'')"
  by (simp add: is_digit_def)

lemma str_nat_1: "n < 10 \<Longrightarrow> str_nat n = [digit_char n]"
  by (simp add: str_nat.simps)

lemma str_nat_2: "10 \<le> n \<Longrightarrow> n < 100 \<Longrightarrow> str_nat n = [digit_char (n div 10), digit_char (n mod 10)]"
  by (subst str_nat.simps) (simp add: str_nat_1)

lemma str_nat_3: "100 \<le> n \<Longrightarrow> n < 1000 \<Longrightarrow>
  str_nat n = [digit_char (n div 100), digit_char (n div 10 mod 10), digit_char (n mod 10)]"
  by (subst str_nat.simps) (simp add: str_nat_2 div_mult2_eq [symmetric])

lemma format_0d_2: 
  assumes "0 \<le> n" "n < 100"
  shows "format_0d 2 n = [digit_char (nat n div 10), digit_char (nat n mod 10)]"
proof (cases "n < 10")
  case True
  with assms show ?thesis by (simp add: format_0d_def str_nat_1 digit_char_0)
next
  case False
  with assms show ?thesis by (simp add: format_0d_def str_nat_2)
qed

lemma format_0d_3: 
  assumes "0 \<le> n" "n < 1000"
  shows "format_0d 3 n = [digit_char (nat n div 100), digit_char (nat n div 10 mod 10), digit_char (nat n mod 10)]"
proof -
  consider "n < 10" | "10 \<le> n" "n < 100" | "100 \<le> n" by linarith
  then show ?thesis
  proof cases
    case 1
    with assms show ?thesis by (simp add: format_0d_def str_nat_1 digit_char_0 numeral_2_eq_2)
  next
    case 2
    with assms show ?thesis by (simp add: format_0d_def str_nat_2 digit_char_0)
  next
    case 3
    with assms show ?thesis by (simp add: format_0d_def str_nat_3)
  qed
qed

lemma match_tail_shape:
  "is_digit s1 \<Longrightarrow> is_digit s2 \<Longrightarrow> is_digit x1 \<Longrightarrow> is_digit x2 \<Longrightarrow> is_digit x3 \<Longrightarrow>
   match_tail (CHR '':'' # s1 # s2 # CHR ''.'' # x1 # x2 # x3 # rest) = Some ([s1, s2], [x1, x2, x3])"
  by simp

lemma match_tail_Some:
  "match_tail t = Some (s, ms) \<Longrightarrow>
   \<exists>rest. all_digits 2 s \<and> all_digits 3 ms \<and> t = CHR '':'' # s @ CHR ''.'' # ms @ rest"
  by (induction t rule: match_tail.induct) (auto simp: all_digits_def split: if_splits)

lemma match_tail_digit: "is_digit c \<Longrightarrow> match_tail (c # t) = None"
  by (cases "(c # t)" rule: match_tail.cases) (auto simp: colon_not_digit)


lemma all_digits_1: "all_digits (Suc 0) m \<longleftrightarrow> (\<exists>a. m = [a] \<and> is_digit a)"
  by (cases m) (auto simp: all_digits_def)

lemma all_digits_2: "all_digits 2 m \<longleftrightarrow> (\<exists>a b. m = [a, b] \<and> is_digit a \<and> is_digit b)"
  by (cases m; cases "tl m") (auto simp: all_digits_def)

lemma all_digits_3:
  "all_digits 3 m \<longleftrightarrow> (\<exists>a b c. m = [a, b, c] \<and> is_digit a \<and> is_digit b \<and> is_digit c)"
  by (cases m; cases "tl m"; cases "tl (tl m)") (auto simp: all_digits_def)

lemma with_minutes_Some:
  "with_minutes m t = Some (m', s, ms) \<longleftrightarrow>
   (m' = m \<and> all_digits 2 s \<and> all_digits 3 ms \<and> (\<exists>rest. t = CHR '':'' # s @ CHR ''.'' # ms @ rest))"
  (is "?L \<longleftrightarrow> ?R")
proof
  assume ?L
  then show ?R
    by (auto simp: with_minutes_def split: option.splits dest: match_tail_Some)
next
  assume r: ?R
  then obtain s1 s2 where s: "s = [s1, s2]" "is_digit s1" "is_digit s2"
    by (auto simp: all_digits_2)
  from r obtain x1 x2 x3 where x: "ms = [x1, x2, x3]" "is_digit x1" "is_digit x2" "is_digit x3"
    by (auto simp: all_digits_3)
  from r s x show ?L
    by (auto simp: with_minutes_def)
qed

lemma with_minutes_digit: "is_digit c \<Longrightarrow> with_minutes m (c # t) = None"
  by (simp add: with_minutes_def match_tail_digit)

lemma re_match_time_iff:
  "re_match_time txt = Some (m, s, ms) \<longleftrightarrow>
   (time_groups m s ms \<and> (\<exists>rest. txt = time_text m s ms @ rest))"
  (is "?L \<longleftrightarrow> ?R")
proof
  assume l: ?L
  then obtain d1 d2 r where shape: "txt = d1 # d2 # r"
    by (cases "txt"; cases "tl txt") (auto simp: re_match_time_def)
  from l have d1: "is_digit d1"
    by (auto simp: shape re_match_time_def split: if_splits)
  show ?R
  proof (cases "is_digit d2")
    case True
    with l d1 have "with_minutes [d1, d2] r = Some (m, s, ms)"
      by (auto simp: shape re_match_time_def with_minutes_digit split: option.splits)
    with d1 True show ?thesis
      by (auto simp: with_minutes_Some time_groups_def time_text_def shape all_digits_2)
  next
    case False
    with l d1 have "with_minutes [d1] (d2 # r) = Some (m, s, ms)"
      by (auto simp: shape re_match_time_def)
    with d1 show ?thesis
      by (auto simp: with_minutes_Some time_groups_def time_text_def shape all_digits_def)
  qed
next
  assume r: ?R
  then obtain rest where shape: "txt = time_text m s ms @ rest" and g: "time_groups m s ms"
    by blast
  from g have w: "with_minutes m' (CHR '':'' # s @ CHR ''.'' # ms @ rest) = Some (m', s, ms)" for m'
    by (auto simp: with_minutes_Some time_groups_def)
  from g consider "all_digits 1 m" | "all_digits 2 m"
    by (auto simp: time_groups_def)
  then show ?L
  proof cases
    case 1
    then obtain a where "m = [a]" "is_digit a" by (auto simp: all_digits_1)
    with w [of "[a]"] show ?thesis
      by (simp add: shape time_text_def re_match_time_def colon_not_digit)
  next
    case 2
    then obtain a b where "m = [a, b]" "is_digit a" "is_digit b" by (auto simp: all_digits_2)
    with w [of "[a, b]"] show ?thesis
      by (simp add: shape time_text_def re_match_time_def)
  qed
qed

text \<open>
  \<open>parse_time\<close> succeeds exactly on the texts that start with an instance of the pattern,
  and its value is computed from the three groups of that instance.
\<close>

lemma parse_time_iff:
  "parse_time txt = Some v \<longleftrightarrow>
   (\<exists>m s ms rest. time_groups m s ms \<and> txt = time_text m s ms @ rest \<and> v = time_value m s ms)"
  (is "?L \<longleftrightarrow> ?R")
proof
  assume ?L
  then obtain m s ms where "re_match_time txt = Some (m, s, ms)" "v = time_value m s ms"
    by (auto simp: parse_time_def time_value_def split: option.splits)
  then show ?R
    by (auto simp: re_match_time_iff)
next
  assume ?R
  then obtain m s ms rest where
    "time_groups m s ms" "txt = time_text m s ms @ rest" "v = time_value m s ms"
    by blast
  then have "re_match_time txt = Some (m, s, ms)" "v = time_value m s ms"
    by (auto simp: re_match_time_iff)
  then show ?L
    by (simp add: parse_time_def time_value_def)
qed

lemma fullmatch_time_length: "fullmatch_time txt \<Longrightarrow> length txt = 8 \<or> length txt = 9"
  by (auto simp: fullmatch_time_def time_groups_def time_text_def all_digits_def)

lemma digits3_sum: "100 * (k div 100) + 10 * (k div 10 mod 10) + k mod 10 = (k::nat)"
proof -
  define q where "q = k div 10"
  have h: "k div 100 = q div 10" by (simp add: q_def div_mult2_eq [symmetric])
  have e: "q = 10 * (q div 10) + q mod 10" by simp
  have "100 * (q div 10) + 10 * (q mod 10) = 10 * q" using e by linarith
  moreover have "10 * q + k mod 10 = k" by (simp add: q_def)
  ultimately show ?thesis unfolding h q_def [symmetric] by linarith
qed

lemma py_int_str_2: "py_int_str [a, b] = 10 * digit_value a + digit_value b"
  by (simp add: py_int_str_def)

lemma py_int_str_3: "py_int_str [a, b, c] = 100 * digit_value a + 10 * digit_value b + digit_value c"
  by (simp add: py_int_str_def)

lemma format_0d_2_groups:
  assumes "0 \<le> n" "n < 100"
  shows "all_digits 2 (format_0d 2 n)" "py_int_str (format_0d 2 n) = n"
proof -
  have d: "nat n div 10 < 10" "nat n mod 10 < 10" using assms by auto
  show "all_digits 2 (format_0d 2 n)"
    using d by (simp add: format_0d_2 [OF assms] all_digits_def is_digit_digit_char)
  have "int (nat n div 10) * 10 + int (nat n mod 10) = n"
    using assms by (simp add: zdiv_int zmod_int)
  then show "py_int_str (format_0d 2 n) = n"
    using d by (simp add: format_0d_2 [OF assms] py_int_str_2 digit_value_digit_char)
qed

lemma format_0d_3_groups:
  assumes "0 \<le> n" "n < 1000"
  shows "all_digits 3 (format_0d 3 n)" "py_int_str (format_0d 3 n) = n"
proof -
  have d: "nat n div 100 < 10" "nat n div 10 mod 10 < 10" "nat n mod 10 < 10" using assms by auto
  show "all_digits 3 (format_0d 3 n)"
    using d by (simp add: format_0d_3 [OF assms] all_digits_def is_digit_digit_char)
  have "100 * (nat n div 100) + 10 * (nat n div 10 mod 10) + nat n mod 10 = nat n"
    by (rule digits3_sum)
  then have "int (100 * (nat n div 100) + 10 * (nat n div 10 mod 10) + nat n mod 10) = n"
    using assms by simp
  then show "py_int_str (format_0d 3 n) = n"
    using d by (simp add: format_0d_3 [OF assms] py_int_str_3 digit_value_digit_char)
qed

lemma format_time_shape:
  assumes "0 \<le> ms"
  shows "format_time ms =
    time_text (format_0d 2 (ms div 1000 div 60)) (format_0d 2 (ms div 1000 mod 60)) (format_0d 3 (ms mod 1000))"
  using assms by (simp add: format_time_def time_text_def Let_def)

subsection \<open>What \<^verbatim>\<open>parse_time\<close> accepts\<close>

text \<open>
  Claim C4 says that \<^verbatim>\<open>parse_time\<close> returns a value if and only if the whole text
  is an instance of \<^verbatim>\<open>\d{1,2}:\d{2}\.\d{3}\<close>, and rejects a matching prefix followed by
  extra characters. The code calls \<^verbatim>\<open>re.match\<close>, which anchors at the start only: the
  text \<^verbatim>\<open>01:01.2345\<close> has ten characters, is not an instance of the pattern, and is
  parsed to 61234.
\<close>

theorem parse_time_trailing_counterexample:
  "parse_time ''01:01.2345'' = Some 61234 \<and> \<not> fullmatch_time ''01:01.2345''"
proof -
  have "parse_time ''01:01.2345'' = Some 61234"
    by (simp add: parse_time_def re_match_time_def with_minutes_def is_digit_def py_int_str_def
        digit_value_def)
  moreover have "\<not> fullmatch_time ''01:01.2345''"
    using fullmatch_time_length [of "''01:01.2345''"] by auto
  ultimately show ?thesis by simp
qed

text \<open>
  Claim C4, amended: \<^verbatim>\<open>parse_time\<close> returns a value if and only if the text starts
  with an instance of the pattern \<^verbatim>\<open>\d{1,2}:\d{2}\.\d{3}\<close>; whatever follows that
  instance is ignored; the value returned is \<open>(minutes * 60 + seconds) * 1000 + millis\<close>
  of the instance's three groups.
\<close>

theorem parse_time_accepts_prefix:
  "parse_time txt = Some v \<longleftrightarrow>
   (\<exists>m s ms rest. time_groups m s ms \<and> txt = time_text m s ms @ rest \<and> v = time_value m s ms)"
  by (rule parse_time_iff)

theorem parse_time_accepts_prefix_witness:
  "time_groups ''1'' ''01'' ''234'' \<and> time_value ''1'' ''01'' ''234'' = 61234
   \<and> parse_time ''1:01.234 and more'' = Some 61234"
proof -
  have g: "time_groups ''1'' ''01'' ''234''"
    by (simp add: time_groups_def all_digits_def is_digit_def)
  have v: "time_value ''1'' ''01'' ''234'' = 61234"
    by (simp add: time_value_def py_int_str_def digit_value_def)
  have t: "''1:01.234 and more'' = time_text ''1'' ''01'' ''234'' @ '' and more''"
    by (simp add: time_text_def)
  have "\<exists>m s ms rest. time_groups m s ms \<and> ''1:01.234 and more'' = time_text m s ms @ rest
      \<and> 61234 = time_value m s ms"
    using g v t by metis
  then have "parse_time ''1:01.234 and more'' = Some 61234"
    using parse_time_accepts_prefix [of "''1:01.234 and more''" 61234] by simp
  with g v show ?thesis by simp
qed

subsection \<open>Round trip\<close>

text \<open>
  Claim C5: for every integer \<open>ms \<ge> 0\<close> whose minutes component \<open>ms div 1000 div 60\<close>
  is below 100, parsing the formatted time gives \<open>ms\<close> back.
\<close>

theorem format_parse_roundtrip:
  assumes "0 \<le> ms" "ms div 1000 div 60 < 100"
  shows "parse_time (format_time ms) = Some ms"
proof -
  define m s x where "m = ms div 1000 div 60" and "s = ms div 1000 mod 60" and "x = ms mod 1000"
  have m: "0 \<le> m" "m < 100" using assms by (simp_all add: m_def)
  have s: "0 \<le> s" "s < 100" by (simp_all add: s_def)
  have x: "0 \<le> x" "x < 1000" by (simp_all add: x_def)
  have shape: "format_time ms = time_text (format_0d 2 m) (format_0d 2 s) (format_0d 3 x)"
    unfolding m_def s_def x_def by (rule format_time_shape [OF assms(1)])
  have g: "time_groups (format_0d 2 m) (format_0d 2 s) (format_0d 3 x)"
    unfolding time_groups_def
    using format_0d_2_groups(1) [OF m] format_0d_2_groups(1) [OF s] format_0d_3_groups(1) [OF x]
    by blast
  have v: "time_value (format_0d 2 m) (format_0d 2 s) (format_0d 3 x) = (m * 60 + s) * 1000 + x"
    by (simp only: time_value_def format_0d_2_groups(2) [OF m] format_0d_2_groups(2) [OF s]
        format_0d_3_groups(2) [OF x])
  have "m * 60 + s = ms div 1000" by (simp add: m_def s_def)
  then have "(m * 60 + s) * 1000 + x = ms" by (simp add: x_def)
  with v have e: "ms = time_value (format_0d 2 m) (format_0d 2 s) (format_0d 3 x)" by simp
  have "\<exists>m' s' x' rest. time_groups m' s' x' \<and> format_time ms = time_text m' s' x' @ rest
      \<and> ms = time_value m' s' x'"
    using g shape e by (metis append_Nil2)
  then show ?thesis by (simp only: parse_time_iff)
qed

theorem format_parse_roundtrip_witness:
  "(0::int) \<le> 5999999 \<and> (5999999::int) div 1000 div 60 < 100
   \<and> parse_time (format_time 5999999) = Some 5999999"
  using format_parse_roundtrip [of 5999999] by simp

section \<open>Properties of \<^verbatim>\<open>trim_media\<close>\<close>

lemma add_to_cache_list_effects:
  "e \<in> set (fst (add_to_cache_list p w)) \<Longrightarrow> \<exists>j. e = StartWorker j"
  by (auto simp: add_to_cache_list_def request_thumbnail_def Let_def split: if_splits prod.splits)

lemma trim_media_rejected:
  assumes "end_time_ms w \<le> start_time_ms w"
  shows "trim_media proc w =
           ((if truthy (current_media_path w)
             then [MessageWarning ''Trim Error'' ''Start time must be before end time.''] else []), w)"
  using assms by (simp add: trim_media_def)

lemma trim_media_runs_only_valid:
  assumes "RunProcess c \<in> set (fst (trim_media proc w))"
  shows "start_time_ms w < end_time_ms w \<and> truthy (current_media_path w)"
proof (rule ccontr)
  assume "\<not> ?thesis"
  then have "fst (trim_media proc w) = [] \<or>
             fst (trim_media proc w) = [MessageWarning ''Trim Error'' ''Start time must be before end time.'']"
    by (auto simp: trim_media_def)
  with assms show False by auto
qed

text \<open>
  Claim C2: a trim request whose start time is not below its end time invokes no
  external process, starts no worker and leaves the window, its cache list included,
  as it was; with a media file loaded the user gets the warning ``Start time must be
  before end time.''. The transcoder runs only when the start time is below the end
  time and a media file is loaded. (Without a media file \<^verbatim>\<open>trim_media\<close> returns at
  once, whatever the times; the trim button is disabled in that state.)
\<close>

theorem trim_media_validation:
  "(end_time_ms w \<le> start_time_ms w \<longrightarrow>
      snd (trim_media proc w) = w
      \<and> (\<forall>e \<in> set (fst (trim_media proc w)). \<forall>c j. e \<noteq> RunProcess c \<and> e \<noteq> StartWorker j)
      \<and> (truthy (current_media_path w) \<longrightarrow>
           fst (trim_media proc w) = [MessageWarning ''Trim Error'' ''Start time must be before end time.'']))
   \<and> ((\<exists>c. RunProcess c \<in> set (fst (trim_media proc w))) \<longrightarrow>
        start_time_ms w < end_time_ms w \<and> truthy (current_media_path w))"
proof (intro conjI impI)
  assume a: "end_time_ms w \<le> start_time_ms w"
  show "snd (trim_media proc w) = w"
    by (simp add: trim_media_rejected [OF a])
  show "\<forall>e \<in> set (fst (trim_media proc w)). \<forall>c j. e \<noteq> RunProcess c \<and> e \<noteq> StartWorker j"
    by (simp add: trim_media_rejected [OF a])
  show "fst (trim_media proc w) = [MessageWarning ''Trim Error'' ''Start time must be before end time.'']"
    if "truthy (current_media_path w)"
    using that by (simp add: trim_media_rejected [OF a])
next
  assume "\<exists>c. RunProcess c \<in> set (fst (trim_media proc w))"
  then obtain c where "RunProcess c \<in> set (fst (trim_media proc w))" ..
  then have r: "start_time_ms w < end_time_ms w \<and> truthy (current_media_path w)"
    by (rule trim_media_runs_only_valid)
  from r show "start_time_ms w < end_time_ms w" ..
  from r show "truthy (current_media_path w)" ..
qed

theorem trim_media_validation_witness:
  "end_time_ms (loaded_window 5000 2000) \<le> start_time_ms (loaded_window 5000 2000)
   \<and> truthy (current_media_path (loaded_window 5000 2000))
   \<and> snd (trim_media (\<lambda>c. Completed) (loaded_window 5000 2000)) = loaded_window 5000 2000
   \<and> fst (trim_media (\<lambda>c. Completed) (loaded_window 5000 2000)) =
       [MessageWarning ''Trim Error'' ''Start time must be before end time.'']
   \<and> (\<exists>c. RunProcess c \<in> set (fst (trim_media (\<lambda>c. OtherError) (loaded_window 2000 5000))))
   \<and> start_time_ms (loaded_window 2000 5000) < end_time_ms (loaded_window 2000 5000)"
proof -
  have h: "end_time_ms (loaded_window 5000 2000) \<le> start_time_ms (loaded_window 5000 2000)"
    "truthy (current_media_path (loaded_window 5000 2000))"
    by (simp_all add: loaded_window_def truthy_def)
  have r: "\<exists>c. RunProcess c \<in> set (fst (trim_media (\<lambda>c. OtherError) (loaded_window 2000 5000)))"
    by (simp add: trim_media_def loaded_window_def truthy_def Let_def)
  show ?thesis
    using h r trim_media_validation [of "loaded_window 5000 2000" "\<lambda>c. Completed"]
      trim_media_validation [of "loaded_window 2000 5000" "\<lambda>c. OtherError"]
    by blast
qed

text \<open>
  Claim C3: when the transcoder exits with a non-zero status (\<^verbatim>\<open>subprocess.run\<close>
  raises \<^verbatim>\<open>CalledProcessError\<close>), the user is shown the critical message ``FFmpeg
  Error'' whose text ends with the process's standard error, and the window is
  unchanged: nothing is added to the cache list.
\<close>

theorem trim_media_process_failure:
  assumes "current_media_path w = Some input_path" "input_path \<noteq> []"
    and "start_time_ms w < end_time_ms w"
    and "output_path = path_join (cache_dir w) (output_filename input_path (start_time_ms w) (end_time_ms w))"
    and "proc (trim_command w input_path output_path) = CalledProcessError stderr"
  shows "trim_media proc w =
           ([PlayerPause, RunProcess (trim_command w input_path output_path),
             MessageCritical ''FFmpeg Error'' (trim_error_text stderr)], w)
         \<and> cache_list (snd (trim_media proc w)) = cache_list w
         \<and> (\<exists>pre. trim_error_text stderr = pre @ stderr)"
  using assms by (simp add: trim_media_def truthy_def trim_error_text_def)

theorem trim_media_process_failure_witness:
  "current_media_path (loaded_window 2000 5000) = Some ''/media/clip.mp4''
   \<and> start_time_ms (loaded_window 2000 5000) < end_time_ms (loaded_window 2000 5000)
   \<and> fst (trim_media (\<lambda>c. CalledProcessError ''no such codec'') (loaded_window 2000 5000)) =
       [PlayerPause,
        RunProcess (trim_command (loaded_window 2000 5000) ''/media/clip.mp4''
          (path_join (cache_dir (loaded_window 2000 5000))
             (output_filename ''/media/clip.mp4'' 2000 5000))),
        MessageCritical ''FFmpeg Error'' (trim_error_text ''no such codec'')]
   \<and> cache_list (snd (trim_media (\<lambda>c. CalledProcessError ''no such codec'') (loaded_window 2000 5000))) = []"
proof -
  have h: "current_media_path (loaded_window 2000 5000) = Some ''/media/clip.mp4''"
    "''/media/clip.mp4'' \<noteq> []"
    "start_time_ms (loaded_window 2000 5000) < end_time_ms (loaded_window 2000 5000)"
    by (simp_all add: loaded_window_def)
  have s: "start_time_ms (loaded_window 2000 5000) = 2000" "end_time_ms (loaded_window 2000 5000) = 5000"
    by (simp_all add: loaded_window_def)
  have c: "cache_list (loaded_window 2000 5000) = []"
    by (simp add: loaded_window_def window0_def new_window_def)
  show ?thesis
    using h c trim_media_process_failure [OF h(1) h(2) h(3) refl,
        of "\<lambda>c. CalledProcessError ''no such codec''" "''no such codec''"]
    unfolding s by simp
qed

section \<open>Properties of the thumbnail worker\<close>

lemma run_existing: "thumb_path j \<in> fs \<Longrightarrow>
   run proc j fs = ([ThumbnailReady (job_item j) (Thumbnail (thumb_path j))], fs)"
  by (simp add: run_def emit_if_exists_def)

lemma run_all_existing:
  "\<forall>j \<in> set js. thumb_path j \<in> fs \<Longrightarrow>
   run_all proc js fs = (map (\<lambda>j. ThumbnailReady (job_item j) (Thumbnail (thumb_path j))) js, fs)"
  by (induction js) (simp_all add: run_existing)

text \<open>
  Claim C8: a thumbnail job whose output path exists when the job runs invokes no
  external process and emits \<^verbatim>\<open>thumbnailReady\<close> with the icon of the existing file;
  so do any number of jobs run one after the other when all their output paths exist
  (two requests with the same output path among them), and the file system is left as
  it was.
\<close>

theorem thumbnail_existing_no_process:
  assumes "\<forall>j \<in> set js. thumb_path j \<in> fs"
  shows "(\<forall>j \<in> set js. run proc j fs = ([ThumbnailReady (job_item j) (Thumbnail (thumb_path j))], fs))
       \<and> run_all proc js fs = (map (\<lambda>j. ThumbnailReady (job_item j) (Thumbnail (thumb_path j))) js, fs)
       \<and> (\<forall>c. RunProcess c \<notin> set (fst (run_all proc js fs)))"
proof (intro conjI)
  show "\<forall>j \<in> set js. run proc j fs = ([ThumbnailReady (job_item j) (Thumbnail (thumb_path j))], fs)"
    using assms by (simp add: run_existing)
  show a: "run_all proc js fs = (map (\<lambda>j. ThumbnailReady (job_item j) (Thumbnail (thumb_path j))) js, fs)"
    using assms by (rule run_all_existing)
  show "\<forall>c. RunProcess c \<notin> set (fst (run_all proc js fs))"
    unfolding a by auto
qed

theorem thumbnail_existing_no_process_witness:
  "thumb_path job0 \<in> {''/t/a.jpg''}
   \<and> run_all (\<lambda>c fs. (OtherError, fs)) [job0, job0] {''/t/a.jpg''} =
       ([ThumbnailReady (job_item job0) (Thumbnail ''/t/a.jpg''),
         ThumbnailReady (job_item job0) (Thumbnail ''/t/a.jpg'')], {''/t/a.jpg''})"
proof -
  have h: "\<forall>j \<in> set [job0, job0]. thumb_path j \<in> {''/t/a.jpg''}"
    by (simp add: job0_def)
  have t: "thumb_path job0 = ''/t/a.jpg''"
    by (simp add: job0_def)
  show ?thesis
    using h thumbnail_existing_no_process [OF h, of "\<lambda>c fs. (OtherError, fs)"]
    by (simp add: t)
qed

section \<open>Properties of the cache list\<close>













section \<open>Properties of \<^verbatim>\<open>load_media\<close>\<close>





section \<open>Properties of the pixel mapping\<close>








section \<open>Properties of the drag handlers\<close>

subsection \<open>Pointer down\<close>

lemma slot_slider_fields:
  "dragging (position_slider (snd (slot playing sg w))) = dragging (position_slider w)"
  by (cases sg)
    (simp_all add: set_start_time_from_slider_def set_end_time_from_slider_def
      on_slider_pressed_def on_slider_released_def setStartMarker_def setEndMarker_def)

lemma deliver_dragging:
  "dragging (position_slider (snd (deliver playing sgs w))) = dragging (position_slider w)"
proof (induction sgs arbitrary: w)
  case Nil
  then show ?case by simp
next
  case (Cons sg sgs)
  show ?case
    using Cons.IH [of "snd (slot playing sg w)"] slot_slider_fields [of playing sg w]
    by (simp add: split_beta Let_def)
qed

lemma mouse_press_dragging:
  "dragging (position_slider (snd (mouse_press x sh playing w))) = Some (pick_handle (position_slider w) x)"
  by (simp add: mouse_press_def mouse_move_def split_beta Let_def deliver_dragging
      on_slider_pressed_def begin_drag_def)

lemma close_markers_pixels:
  "value_to_pos (position_slider close_markers_window) (start_marker (position_slider close_markers_window)) = 8"
  "value_to_pos (position_slider close_markers_window) (end_marker (position_slider close_markers_window)) = 12"
  "handle_width (position_slider close_markers_window) div 2 = 8"
  by code_simp+

text \<open>
  Claim C6 says that the nearest handle within reach is chosen. The code tests the start
  handle first. With the start handle at pixel 8 and the end handle at pixel 12, a press
  at pixel 13 is within reach of both (less than 8 away) and nearer to the end handle
  (1 against 5), and it starts a drag of the start marker.
\<close>

theorem mouse_press_nearest_counterexample:
  "dragging (position_slider (snd (mouse_press 13 False False close_markers_window))) = Some DragStart
   \<and> \<bar>13 - real_of_int (value_to_pos (position_slider close_markers_window)
                           (end_marker (position_slider close_markers_window)))\<bar>
       < \<bar>13 - real_of_int (value_to_pos (position_slider close_markers_window)
                             (start_marker (position_slider close_markers_window)))\<bar>
   \<and> \<bar>13 - real_of_int (value_to_pos (position_slider close_markers_window)
                           (end_marker (position_slider close_markers_window)))\<bar>
       < real_of_int (handle_width (position_slider close_markers_window) div 2)"
  by code_simp

text \<open>
  Claim C6, amended: for every pointer-down position \<open>x\<close>, \<^verbatim>\<open>mousePressEvent\<close> starts a
  drag of the start marker if the start handle's pixel is less than \<open>handle_width // 2\<close>
  away from \<open>x\<close>; otherwise of the end marker if the end handle's pixel is; otherwise of
  the playhead. The order is fixed, the distances are not compared with each other, and
  exactly one of the three drags is active afterwards (the handlers that run later in
  the event leave it alone).
\<close>

theorem mouse_press_priority:
  "dragging (position_slider (snd (mouse_press x sh playing w))) =
     (let s = position_slider w;
          near = (\<lambda>value. \<bar>x - real_of_int (value_to_pos s value)\<bar> < real_of_int (handle_width s div 2))
      in Some (if near (start_marker s) then DragStart
               else if near (end_marker s) then DragEnd
               else DragPosition))"
  by (simp add: mouse_press_dragging pick_handle_def Let_def)

theorem mouse_press_priority_witness:
  "dragging (position_slider (snd (mouse_press 13 False False close_markers_window))) = Some DragStart
   \<and> dragging (position_slider (snd (mouse_press 19 False False close_markers_window))) = Some DragEnd
   \<and> dragging (position_slider (snd (mouse_press 60 False False close_markers_window))) = Some DragPosition"
  using mouse_press_priority [of 13 False False close_markers_window]
    mouse_press_priority [of 19 False False close_markers_window]
    mouse_press_priority [of 60 False False close_markers_window]
  by (simp add: Let_def close_markers_pixels)

subsection \<open>Pointer move\<close>

text \<open>
  Without Shift the factor is 1, the new value is the integer \<^verbatim>\<open>current_val\<close> itself,
  and the guard compares the very value that is emitted: a move keeps the start marker
  below the end marker.
\<close>

lemma py_int_of_int: "py_int (real_of_int z) = z"
  by (simp add: py_int_def)

lemma mouseMoveEvent_plain:
  "mouseMoveEvent s x False =
     (let c = pos_to_value s x
      in case dragging s of
           None \<Rightarrow> []
         | Some DragPosition \<Rightarrow> [positionChanged c]
         | Some DragStart \<Rightarrow> (if c < end_marker s then [startMarkerChanged c] else [])
         | Some DragEnd \<Rightarrow> (if start_marker s < c then [endMarkerChanged c] else []))"
proof -
  have e: "real_of_int p + real_of_int (c - p) * fine_tune_factor False = real_of_int c" for p c
    by (simp add: fine_tune_factor_def)
  show ?thesis
    unfolding mouseMoveEvent_def Let_def e py_int_of_int
    by (simp split: option.splits drag.splits)
qed

lemma mouse_move_plain_keeps_order:
  assumes "start_marker (position_slider w) < end_marker (position_slider w)"
  shows "start_marker (position_slider (snd (mouse_move x False playing w)))
         < end_marker (position_slider (snd (mouse_move x False playing w)))"
proof (cases "dragging (position_slider w)")
  case None
  with assms show ?thesis
    by (simp add: mouse_move_def mouseMoveEvent_plain)
next
  case (Some d)
  with assms show ?thesis
    by (cases d)
      (simp_all add: mouse_move_def mouseMoveEvent_plain Let_def set_start_time_from_slider_def
        set_end_time_from_slider_def setStartMarker_def setEndMarker_def)
qed

text \<open>
  With Shift the new value is a float with a fractional part; the guard compares the
  float, and the value emitted is the float cut to an integer.
\<close>

lemma drag_window_state:
  "position_slider drag_window =
     \<lparr>width = 116, handle_width = 16, snap_threshold_px = 10, min_val = 0, max_val = 100,
      position = 0, start_marker = 0, end_marker = 1, dragging = Some DragEnd\<rparr>"
  "start_time_ms drag_window = 0"
  "end_time_ms drag_window = 1"
  by code_simp+

text \<open>
  Claim C1 says that no sequence of drag updates reaches \<open>start \<ge> end\<close>. The code at a
  failing input: a medium of 100 ms, the end handle pressed with Shift held and dragged
  to the left edge. After 13 move events the markers are at 0 and 1, a valid pair. The
  next move computes \<open>1 + (0 - 1) * 0.25 = 0.75\<close>, which passes the guard
  \<^verbatim>\<open>new_val > self._start_marker\<close>, and emits \<^verbatim>\<open>int(0.75) = 0\<close>: end time and end
  marker become 0, equal to the start.
\<close>

theorem end_drag_fine_tune_collapses:
  "start_time_ms drag_window < end_time_ms drag_window
   \<and> start_marker (position_slider drag_window) < end_marker (position_slider drag_window)
   \<and> end_time_ms (snd (mouse_move 8 True False drag_window))
       = start_time_ms (snd (mouse_move 8 True False drag_window))
   \<and> end_marker (position_slider (snd (mouse_move 8 True False drag_window)))
       = start_marker (position_slider (snd (mouse_move 8 True False drag_window)))"
  by (simp add: drag_window_state mouse_move_def mouseMoveEvent_def pos_to_value_def py_int_def
      fine_tune_factor_def set_end_time_from_slider_def setEndMarker_def Let_def)

end
